theory Spec2Isabelle
  imports Complex_Main
begin

section \<open>The query orchestrator of \<^verbatim>\<open>backend/services/rag_service.py\<close>\<close>

subsection \<open>Data\<close>

text \<open>
  Python floats (similarity scores, clock readings, the threshold, the components of an
  embedding vector) are kept abstract as the type parameter \<open>'f\<close>. The two float
  operations the orchestrator uses, subtraction and formatting with \<^verbatim>\<open>:.3f\<close>, are
  supplied by the runtime (fields \<open>fsub\<close> and \<open>fmt3f\<close> below).

  A Python \<^verbatim>\<open>str\<close> is a \<open>string\<close>, one list element per character, so that
  \<^verbatim>\<open>len\<close> is \<open>length\<close>.
\<close>

text \<open>One search hit of the vector index: \<^verbatim>\<open>hit.payload\<close> (a dict) and \<^verbatim>\<open>hit.score\<close>.\<close>

record 'f hit =
  payload :: "string \<rightharpoonup> string"
  score :: 'f

text \<open>The values stored in a response dict, and the dict itself in the order of its literal.\<close>

datatype 'f val =
    VStr string
  | VStrList "string list"
  | VInt int
  | VFloat 'f
  | VFloatList "'f list"

type_synonym 'f response = "(string \<times> 'f val) list"

text \<open>
  The collaborators the module reaches through its imports (\<^verbatim>\<open>gemini_service\<close>,
  \<^verbatim>\<open>qdrant_store\<close>, \<^verbatim>\<open>settings\<close>) and the runtime. A collaborator call either
  raises an \<^verbatim>\<open>Exception\<close> \<open>e\<close>, modelled as \<open>Inl (str(e))\<close>, or returns, \<open>Inr\<close>.
  Either operation calls each collaborator at most once, so a collaborator is the function
  from the arguments of that call to its outcome.
  \<open>time_time n\<close> is the reading of the \<open>n\<close>-th call of \<^verbatim>\<open>time.time()\<close>;
  \<open>list_of_set xs\<close> is \<^verbatim>\<open>list(set(xs))\<close>, whose order the runtime chooses.
\<close>

record 'f services =
  get_embedding :: "string \<Rightarrow> string + 'f list"
  search_vectors :: "'f list \<Rightarrow> int \<Rightarrow> 'f \<Rightarrow> string + 'f hit list"
  generate_content :: "string \<Rightarrow> string + string"
  GEMINI_MODEL :: string
  time_time :: "nat \<Rightarrow> 'f"
  fsub :: "'f \<Rightarrow> 'f \<Rightarrow> 'f"
  fmt3f :: "'f \<Rightarrow> string"
  list_of_set :: "string list \<Rightarrow> string list"

text \<open>The fields \<^verbatim>\<open>__init__\<close> sets on \<^verbatim>\<open>RAGService\<close>.\<close>

record 'f RAGService =
  similarity_threshold :: 'f
  max_results :: int

text \<open>
  The observable effects of a run: the collaborator calls made so far, oldest first, and
  how many times the clock has been read.
\<close>

datatype 'f call =
    GetEmbedding string
  | SearchVectors "'f list" int 'f
  | GenerateContent string

record 'f world =
  calls :: "'f call list"
  clock_reads :: nat

definition now :: "'f services \<Rightarrow> 'f world \<Rightarrow> 'f \<times> 'f world" where
  "now sv w = (time_time sv (clock_reads w), w\<lparr>clock_reads := Suc (clock_reads w)\<rparr>)"

definition record_call :: "'f call \<Rightarrow> 'f world \<Rightarrow> 'f world" where
  "record_call c w = w\<lparr>calls := calls w @ [c]\<rparr>"

text \<open>The collaborator calls made between the worlds \<open>w\<close> and \<open>w'\<close>.\<close>

definition calls_made :: "'f world \<Rightarrow> 'f world \<Rightarrow> 'f call list" where
  "calls_made w w' = drop (length (calls w)) (calls w')"

subsection \<open>String helpers of the Python runtime\<close>

definition nl :: string where
  "nl = [CHR 0x0A]"

definition dq :: string where
  "dq = [CHR 0x22]"

text \<open>
  \<^verbatim>\<open>str(i)\<close> for a non-negative integer, as the f-string \<^verbatim>\<open>f"chunk_{i}"\<close> renders it.
  \<open>digit_char\<close> is only applied to numbers below 10.
\<close>

definition digit_char :: "nat \<Rightarrow> char" where
  "digit_char d = ''0123456789'' ! d"

fun str_nat :: "nat \<Rightarrow> string" where
  "str_nat n = (if n < 10 then [digit_char n] else str_nat (n div 10) @ [digit_char (n mod 10)])"

declare str_nat.simps [simp del]

text \<open>\<^verbatim>\<open>sep.join(xs)\<close>.\<close>

fun join_str :: "string \<Rightarrow> string list \<Rightarrow> string" where
  "join_str sep [] = []"
| "join_str sep [x] = x"
| "join_str sep (x # y # ys) = x @ sep @ join_str sep (y # ys)"

subsection \<open>Full-corpus mode: \<^verbatim>\<open>query_rag\<close>\<close>

text \<open>
  The loop of step 3, \<^verbatim>\<open>for i, hit in enumerate(search_results)\<close>, with its two
  accumulators \<^verbatim>\<open>context_chunks\<close> and \<^verbatim>\<open>source_attribution\<close>.
\<close>

fun build_context ::
  "'f services \<Rightarrow> nat \<Rightarrow> 'f hit list \<Rightarrow> string list \<times> string list \<Rightarrow> string list \<times> string list"
where
  "build_context sv i [] acc = acc"
| "build_context sv i (h # rest) (context_chunks, source_attribution) =
     (case payload h ''content'' of
        None \<Rightarrow> build_context sv (Suc i) rest (context_chunks, source_attribution)
      | Some chunk_content \<Rightarrow>
          (let filename = (case payload h ''filename'' of
                             Some f \<Rightarrow> f
                           | None \<Rightarrow> ''chunk_'' @ str_nat i)
           in build_context sv (Suc i) rest
                (context_chunks @
                   [''[Source: '' @ filename @ '', Score: '' @ fmt3f sv (score h) @ '']'' @ nl @
                    chunk_content],
                 source_attribution @ [filename])))"

definition context_separator :: string where
  "context_separator = nl @ nl @ ''---'' @ nl @ nl"

definition rag_prompt :: "string \<Rightarrow> string \<Rightarrow> string" where
  "rag_prompt context query_text =
     ''You are a knowledgeable teaching assistant for the '' @ dq @
       ''Physical AI & Humanoid Robotics'' @ dq @ '' textbook.'' @ nl @
     nl @
     ''RELEVANT TEXTBOOK EXCERPTS:'' @ nl @
     context @ nl @
     nl @
     ''STUDENT QUESTION: '' @ query_text @ nl @
     nl @
     ''INSTRUCTIONS (CRITICAL):'' @ nl @
     ''1. Answer STRICTLY based on the textbook excerpts above'' @ nl @
     ''2. If information is NOT in the excerpts, say: '' @ dq @
       ''This topic is not covered in the available textbook chapters.'' @ dq @ nl @
     ''3. Keep answers concise and technical'' @ nl @
     ''4. Reference specific chapters/sources when possible'' @ nl @
     ''5. Use markdown formatting for readability'' @ nl @
     nl @
     ''ASSISTANT'S ANSWER:''"

text \<open>The dict of the \<^verbatim>\<open>except Exception as e\<close> branch of \<^verbatim>\<open>query_rag\<close>.\<close>

definition rag_error_response :: "string \<Rightarrow> string \<Rightarrow> 'f response" where
  "rag_error_response e query_text =
     [(''answer'', VStr (''Error processing your query: '' @ e)),
      (''sources'', VStrList []),
      (''error'', VStr e),
      (''query'', VStr query_text)]"

text \<open>
  \<^verbatim>\<open>query_rag\<close>. The \<^verbatim>\<open>print\<close> calls write progress lines to standard output and
  are left out; every read of the clock is kept.
\<close>

definition query_rag ::
  "'f services \<Rightarrow> 'f RAGService \<Rightarrow> string \<Rightarrow> 'f world \<Rightarrow> 'f response \<times> 'f world"
where
  "query_rag sv self query_text w0 =
     (let (start_time, w1) = now sv w0;
          w2 = record_call (GetEmbedding query_text) w1
      in case get_embedding sv query_text of
           Inl e \<Rightarrow> (rag_error_response e query_text, w2)
         | Inr query_embedding \<Rightarrow>
             (let (embedding_time, w3) = now sv w2;
                  w4 = record_call
                         (SearchVectors query_embedding (max_results self)
                            (similarity_threshold self)) w3
              in case search_vectors sv query_embedding (max_results self)
                        (similarity_threshold self) of
                   Inl e \<Rightarrow> (rag_error_response e query_text, w4)
                 | Inr search_results \<Rightarrow>
                     (let (search_time, w5) = now sv w4
                      in if search_results = [] then
                           (let (t, w6) = now sv w5
                            in ([(''answer'',
                                    VStr ''I couldn't find relevant information in the textbook.''),
                                 (''sources'', VStrList []),
                                 (''chunks_used'', VInt 0),
                                 (''query'', VStr query_text),
                                 (''response_time'', VFloat (fsub sv t start_time))],
                                w6))
                         else
                           (let (context_chunks, source_attribution) =
                                  build_context sv 0 search_results ([], []);
                                context = join_str context_separator context_chunks;
                                prompt = rag_prompt context query_text;
                                w6 = record_call (GenerateContent prompt) w5
                            in case generate_content sv prompt of
                                 Inl e \<Rightarrow> (rag_error_response e query_text, w6)
                               | Inr answer \<Rightarrow>
                                   (let (generation_time, w7) = now sv w6;
                                        (t, w8) = now sv w7;
                                        total_time = fsub sv t start_time
                                    in ([(''answer'', VStr answer),
                                         (''sources'',
                                            VStrList (list_of_set sv source_attribution)),
                                         (''chunks_used'', VInt (int (length context_chunks))),
                                         (''similarity_scores'',
                                            VFloatList (map score search_results)),
                                         (''query'', VStr query_text),
                                         (''response_time'', VFloat total_time),
                                         (''model'', VStr (GEMINI_MODEL sv))],
                                        w8))))))"

subsection \<open>Selected-text mode: \<^verbatim>\<open>query_selected_text\<close>\<close>

definition selected_prompt :: "string \<Rightarrow> string \<Rightarrow> string" where
  "selected_prompt selected_text query_text =
     ''You are a helpful assistant. Answer based STRICTLY on the following selected text:'' @ nl @
     nl @
     ''SELECTED TEXT:'' @ nl @
     selected_text @ nl @
     nl @
     ''QUESTION: '' @ query_text @ nl @
     nl @
     ''RULES:'' @ nl @
     ''1. Answer ONLY from the selected text above'' @ nl @
     ''2. If answer is NOT in selected text, say: '' @ dq @
       ''The selected text does not contain this information.'' @ dq @ nl @
     ''3. Do not use any external knowledge'' @ nl @
     ''4. Be concise and accurate'' @ nl @
     nl @
     ''ANSWER:''"

definition query_selected_text ::
  "'f services \<Rightarrow> string \<Rightarrow> string \<Rightarrow> 'f world \<Rightarrow> 'f response \<times> 'f world"
where
  "query_selected_text sv query_text selected_text w0 =
     (let (start_time, w1) = now sv w0;
          prompt = selected_prompt selected_text query_text;
          w2 = record_call (GenerateContent prompt) w1
      in case generate_content sv prompt of
           Inl e \<Rightarrow>
             ([(''answer'', VStr (''Error: '' @ e)),
               (''source'', VStr ''Error''),
               (''query'', VStr query_text)],
              w2)
         | Inr answer \<Rightarrow>
             (let (t, w3) = now sv w2
              in ([(''answer'', VStr answer),
                   (''source'', VStr ''User-selected text''),
                   (''query'', VStr query_text),
                   (''selected_text_length'', VInt (int (length selected_text))),
                   (''response_time'', VFloat (fsub sv t start_time)),
                   (''model'', VStr (GEMINI_MODEL sv))],
                  w3)))"

subsection \<open>Reading a response\<close>

text \<open>\<^verbatim>\<open>r.get(k)\<close> and \<^verbatim>\<open>list(r.keys())\<close> on a response dict.\<close>

definition field :: "'f response \<Rightarrow> string \<Rightarrow> 'f val option" where
  "field r k = map_of r k"

definition fields :: "'f response \<Rightarrow> string list" where
  "fields r = map fst r"

subsection \<open>The specification's wording of context assembly\<close>

text \<open>
  The specification describes the context as labelled blocks
  \<^verbatim>\<open>"[Source: <filename>, Score: <score to 3 decimals>]\n<content>"\<close> joined by
  \<^verbatim>\<open>"\n\n---\n\n"\<close>, with the filename \<^verbatim>\<open>chunk_<index>\<close> when the payload has none.
  These definitions follow that wording; the theorems below compare them with the loop
  of \<^verbatim>\<open>query_rag\<close>.
\<close>

definition spec_separator :: string where
  "spec_separator =
     [CHR 0x0A, CHR 0x0A, CHR ''-'', CHR ''-'', CHR ''-'', CHR 0x0A, CHR 0x0A]"

definition spec_filename :: "nat \<Rightarrow> 'f hit \<Rightarrow> string" where
  "spec_filename i h =
     (case payload h ''filename'' of Some f \<Rightarrow> f | None \<Rightarrow> ''chunk_'' @ str_nat i)"

definition spec_content :: "'f hit \<Rightarrow> string" where
  "spec_content h = (case payload h ''content'' of Some c \<Rightarrow> c | None \<Rightarrow> [])"

definition spec_block :: "'f services \<Rightarrow> nat \<Rightarrow> 'f hit \<Rightarrow> string" where
  "spec_block sv i h =
     ''[Source: '' @ spec_filename i h @ '', Score: '' @ fmt3f sv (score h) @ '']'' @
     [CHR 0x0A] @ spec_content h"

definition spec_join :: "string \<Rightarrow> string list \<Rightarrow> string" where
  "spec_join sep blocks =
     (case blocks of [] \<Rightarrow> [] | b # bs \<Rightarrow> b @ concat (map (\<lambda>x. sep @ x) bs))"

text \<open>The hits whose payload has a \<^verbatim>\<open>"content"\<close> key, each with its position in the search result.\<close>

definition has_content :: "'f hit \<Rightarrow> bool" where
  "has_content h = (payload h ''content'' \<noteq> None)"

definition used_hits :: "'f hit list \<Rightarrow> (nat \<times> 'f hit) list" where
  "used_hits hits = filter (\<lambda>(i, h). has_content h) (enumerate 0 hits)"

text \<open>
  What \<^verbatim>\<open>list(set(xs))\<close> guarantees whatever order the runtime picks: the elements of
  \<open>xs\<close>, each once.
\<close>

definition list_of_set_ok :: "'f services \<Rightarrow> string list \<Rightarrow> bool" where
  "list_of_set_ok sv xs = (distinct (list_of_set sv xs) \<and> set (list_of_set sv xs) = set xs)"

subsection \<open>Example collaborators\<close>

text \<open>
  Concrete collaborators for running the two operations; floats are played by \<open>real\<close>.
  \<open>example_fmt3f\<close> formats a non-negative value with three decimals.
\<close>

definition example_fmt3f :: "real \<Rightarrow> string" where
  "example_fmt3f x =
     (let n = nat (round (x * 1000))
      in str_nat (n div 1000) @ ''.'' @
         [digit_char (n div 100 mod 10), digit_char (n div 10 mod 10), digit_char (n mod 10)])"

definition hit_ch1 :: "real hit" where
  "hit_ch1 =
     \<lparr>payload = [''content'' \<mapsto> ''A humanoid robot mimics human form.'',
                  ''filename'' \<mapsto> ''ch1.pdf''],
      score = 0.85\<rparr>"

definition hit_unnamed :: "real hit" where
  "hit_unnamed = \<lparr>payload = [''content'' \<mapsto> ''Actuators drive the joints.''], score = 0.8\<rparr>"

definition hit_no_content :: "real hit" where
  "hit_no_content = \<lparr>payload = [''filename'' \<mapsto> ''ch2.pdf''], score = 0.75\<rparr>"

definition hit_ch1_again :: "real hit" where
  "hit_ch1_again =
     \<lparr>payload = [''content'' \<mapsto> ''Humanoids walk on two legs.'',
                  ''filename'' \<mapsto> ''ch1.pdf''],
      score = 0.72\<rparr>"

definition example_services :: "real services" where
  "example_services =
     \<lparr>get_embedding = (\<lambda>text. Inr [0.1, 0.2]),
      search_vectors =
        (\<lambda>v limit threshold. Inr [hit_ch1, hit_unnamed, hit_no_content, hit_ch1_again]),
      generate_content = (\<lambda>prompt. Inr ''A humanoid robot mimics human form.''),
      GEMINI_MODEL = ''gemini-1.5-flash'',
      time_time = (\<lambda>n. real n),
      fsub = (\<lambda>a b. a - b),
      fmt3f = example_fmt3f,
      list_of_set = remdups\<rparr>"

definition services_no_hits :: "real services" where
  "services_no_hits = example_services\<lparr>search_vectors := (\<lambda>v limit threshold. Inr [])\<rparr>"

definition services_one_hit_no_content :: "real services" where
  "services_one_hit_no_content =
     example_services\<lparr>search_vectors := (\<lambda>v limit threshold. Inr [hit_no_content])\<rparr>"

definition services_embedding_down :: "real services" where
  "services_embedding_down =
     example_services\<lparr>get_embedding := (\<lambda>text. Inl ''embedding quota exceeded'')\<rparr>"

definition services_search_down :: "real services" where
  "services_search_down =
     example_services\<lparr>search_vectors := (\<lambda>v limit threshold. Inl ''connection refused'')\<rparr>"

definition services_generation_down :: "real services" where
  "services_generation_down =
     example_services\<lparr>generate_content := (\<lambda>prompt. Inl ''model overloaded'')\<rparr>"

definition example_self :: "real RAGService" where
  "example_self = \<lparr>similarity_threshold = 0.7, max_results = 5\<rparr>"

definition fresh_world :: "real world" where
  "fresh_world = \<lparr>calls = [], clock_reads = 0\<rparr>"

section \<open>Properties\<close>

subsection \<open>The paths through \<^verbatim>\<open>query_rag\<close>\<close>

lemma query_rag_embedding_raises:
  assumes "get_embedding sv q = Inl e"
  shows "query_rag sv self q w =
           (rag_error_response e q,
            w\<lparr>clock_reads := Suc (clock_reads w), calls := calls w @ [GetEmbedding q]\<rparr>)"
  using assms by (simp add: query_rag_def now_def record_call_def)

lemma query_rag_search_raises:
  assumes "get_embedding sv q = Inr emb"
    and "search_vectors sv emb (max_results self) (similarity_threshold self) = Inl e"
  shows "query_rag sv self q w =
           (rag_error_response e q,
            w\<lparr>clock_reads := clock_reads w + 2,
              calls := calls w @ [GetEmbedding q,
                 SearchVectors emb (max_results self) (similarity_threshold self)]\<rparr>)"
  using assms by (simp add: query_rag_def now_def record_call_def)

lemma query_rag_no_hits:
  assumes "get_embedding sv q = Inr emb"
    and "search_vectors sv emb (max_results self) (similarity_threshold self) = Inr []"
  shows "query_rag sv self q w =
           ([(''answer'', VStr ''I couldn't find relevant information in the textbook.''),
             (''sources'', VStrList []),
             (''chunks_used'', VInt 0),
             (''query'', VStr q),
             (''response_time'',
                VFloat (fsub sv (time_time sv (clock_reads w + 3)) (time_time sv (clock_reads w))))],
            w\<lparr>clock_reads := clock_reads w + 4,
              calls := calls w @ [GetEmbedding q,
                 SearchVectors emb (max_results self) (similarity_threshold self)]\<rparr>)"
  using assms by (simp add: query_rag_def now_def record_call_def numeral_eq_Suc)

lemma query_rag_generation_raises:
  assumes "get_embedding sv q = Inr emb"
    and "search_vectors sv emb (max_results self) (similarity_threshold self) = Inr hits"
    and "hits \<noteq> []"
    and "build_context sv 0 hits ([], []) = (chunks, srcs)"
    and "generate_content sv (rag_prompt (join_str context_separator chunks) q) = Inl e"
  shows "query_rag sv self q w =
           (rag_error_response e q,
            w\<lparr>clock_reads := clock_reads w + 3,
              calls := calls w @ [GetEmbedding q,
                 SearchVectors emb (max_results self) (similarity_threshold self),
                 GenerateContent (rag_prompt (join_str context_separator chunks) q)]\<rparr>)"
  using assms by (simp add: query_rag_def now_def record_call_def numeral_eq_Suc)

lemma query_rag_answers:
  assumes "get_embedding sv q = Inr emb"
    and "search_vectors sv emb (max_results self) (similarity_threshold self) = Inr hits"
    and "hits \<noteq> []"
    and "build_context sv 0 hits ([], []) = (chunks, srcs)"
    and "generate_content sv (rag_prompt (join_str context_separator chunks) q) = Inr answer"
  shows "query_rag sv self q w =
           ([(''answer'', VStr answer),
             (''sources'', VStrList (list_of_set sv srcs)),
             (''chunks_used'', VInt (int (length chunks))),
             (''similarity_scores'', VFloatList (map score hits)),
             (''query'', VStr q),
             (''response_time'',
                VFloat (fsub sv (time_time sv (clock_reads w + 4)) (time_time sv (clock_reads w)))),
             (''model'', VStr (GEMINI_MODEL sv))],
            w\<lparr>clock_reads := clock_reads w + 5,
              calls := calls w @ [GetEmbedding q,
                 SearchVectors emb (max_results self) (similarity_threshold self),
                 GenerateContent (rag_prompt (join_str context_separator chunks) q)]\<rparr>)"
  using assms by (simp add: query_rag_def now_def record_call_def numeral_eq_Suc)

subsection \<open>The loop and the join\<close>

lemma build_context_acc:
  "build_context sv i hits (cs, ss) =
     (cs @ map (\<lambda>(j, h). spec_block sv j h) (filter (\<lambda>(j, h). has_content h) (enumerate i hits)),
      ss @ map (\<lambda>(j, h). spec_filename j h) (filter (\<lambda>(j, h). has_content h) (enumerate i hits)))"
proof (induction hits arbitrary: i cs ss)
  case Nil
  show ?case by simp
next
  case (Cons h rest)
  show ?case
  proof (cases "payload h ''content''")
    case None
    then show ?thesis
      using Cons.IH [of "Suc i" cs ss] by (simp add: has_content_def)
  next
    case (Some c)
    then show ?thesis
      using Cons.IH [of "Suc i"]
      by (simp add: has_content_def spec_block_def spec_filename_def spec_content_def nl_def Let_def
          split: option.split)
  qed
qed

lemma build_context_used_hits:
  "build_context sv 0 hits ([], []) =
     (map (\<lambda>(j, h). spec_block sv j h) (used_hits hits),
      map (\<lambda>(j, h). spec_filename j h) (used_hits hits))"
  by (simp add: build_context_acc used_hits_def)

lemma join_str_spec_join: "join_str sep xs = spec_join sep xs"
  by (induction sep xs rule: join_str.induct) (simp_all add: spec_join_def)

lemma context_separator_spec: "context_separator = spec_separator"
  by (simp add: context_separator_def spec_separator_def nl_def)

lemma length_used_hits: "length (used_hits hits) \<le> length hits"
proof -
  have "length (used_hits hits) \<le> length (enumerate 0 hits)"
    unfolding used_hits_def by (rule length_filter_le)
  then show ?thesis by simp
qed

lemma used_hits_all:
  assumes "list_all has_content hits"
  shows "map snd (used_hits hits) = hits"
proof -
  have "filter (\<lambda>(i, h). has_content h) (enumerate n hits) = enumerate n hits" for n
    using assms by (induction hits arbitrary: n) simp_all
  then show ?thesis by (simp add: used_hits_def)
qed

lemma map_snd_used_hits: "map snd (used_hits hits) = filter has_content hits"
proof -
  have "map snd (filter (\<lambda>(i, h). has_content h) (enumerate n hits)) = filter has_content hits" for n
    by (induction hits arbitrary: n) simp_all
  then show ?thesis by (simp add: used_hits_def)
qed

subsection \<open>Selected-text mode\<close>

lemma query_selected_text_raises:
  assumes "generate_content sv (selected_prompt t q) = Inl e"
  shows "query_selected_text sv q t w =
           ([(''answer'', VStr (''Error: '' @ e)),
             (''source'', VStr ''Error''),
             (''query'', VStr q)],
            w\<lparr>clock_reads := Suc (clock_reads w),
              calls := calls w @ [GenerateContent (selected_prompt t q)]\<rparr>)"
  using assms by (simp add: query_selected_text_def now_def record_call_def)

lemma query_selected_text_answers:
  assumes "generate_content sv (selected_prompt t q) = Inr answer"
  shows "query_selected_text sv q t w =
           ([(''answer'', VStr answer),
             (''source'', VStr ''User-selected text''),
             (''query'', VStr q),
             (''selected_text_length'', VInt (int (length t))),
             (''response_time'',
                VFloat (fsub sv (time_time sv (clock_reads w + 1)) (time_time sv (clock_reads w)))),
             (''model'', VStr (GEMINI_MODEL sv))],
            w\<lparr>clock_reads := clock_reads w + 2,
              calls := calls w @ [GenerateContent (selected_prompt t q)]\<rparr>)"
  using assms by (simp add: query_selected_text_def now_def record_call_def)

section \<open>Claims\<close>

text \<open>
  Claim C1. When the embedding call returns and the vector search returns no hit,
  \<^verbatim>\<open>query_rag\<close> returns the response with the fixed not-found sentence as answer, an
  empty source list, \<^verbatim>\<open>chunks_used\<close> 0, the query and the elapsed time measured from
  the first to the fourth reading of the clock; the only collaborator calls of the run are
  the embedding call and the search, so the generation provider is not invoked.
\<close>

theorem zero_hits_short_circuit:
  assumes "get_embedding sv q = Inr emb"
    and "search_vectors sv emb (max_results self) (similarity_threshold self) = Inr []"
  shows "fst (query_rag sv self q w) =
           [(''answer'', VStr ''I couldn't find relevant information in the textbook.''),
            (''sources'', VStrList []),
            (''chunks_used'', VInt 0),
            (''query'', VStr q),
            (''response_time'',
               VFloat (fsub sv (time_time sv (clock_reads w + 3)) (time_time sv (clock_reads w))))]
         \<and> calls (snd (query_rag sv self q w)) =
             calls w @ [GetEmbedding q,
                        SearchVectors emb (max_results self) (similarity_threshold self)]
         \<and> (\<forall>p. GenerateContent p \<notin> set (calls_made w (snd (query_rag sv self q w))))"
  by (simp add: query_rag_no_hits [OF assms] calls_made_def)

theorem zero_hits_short_circuit_witness:
  "get_embedding services_no_hits ''What is a humanoid robot?'' = Inr [0.1, 0.2]
   \<and> search_vectors services_no_hits [0.1, 0.2] (max_results example_self)
        (similarity_threshold example_self) = Inr []
   \<and> fst (query_rag services_no_hits example_self ''What is a humanoid robot?'' fresh_world) =
        [(''answer'', VStr ''I couldn't find relevant information in the textbook.''),
         (''sources'', VStrList []),
         (''chunks_used'', VInt 0),
         (''query'', VStr ''What is a humanoid robot?''),
         (''response_time'', VFloat 3)]
   \<and> calls (snd (query_rag services_no_hits example_self ''What is a humanoid robot?''
         fresh_world)) =
        [GetEmbedding ''What is a humanoid robot?'', SearchVectors [0.1, 0.2] 5 0.7]"
proof -
  have e: "get_embedding services_no_hits ''What is a humanoid robot?'' = Inr [0.1, 0.2]"
    by (simp add: services_no_hits_def example_services_def)
  have s: "search_vectors services_no_hits [0.1, 0.2] (max_results example_self)
             (similarity_threshold example_self) = Inr []"
    by (simp add: services_no_hits_def example_services_def)
  show ?thesis
    using zero_hits_short_circuit [OF e s, of fresh_world] e s
    by (simp add: services_no_hits_def example_services_def example_self_def fresh_world_def)
qed

text \<open>
  Claim C8. Whatever the query, the selected text and the outcome of the generation call,
  the one collaborator call \<^verbatim>\<open>query_selected_text\<close> makes is the generation call with
  the selected-text prompt: no embedding call and no vector search.
\<close>

theorem selected_text_calls_generation_only:
  "calls (snd (query_selected_text sv q t w)) = calls w @ [GenerateContent (selected_prompt t q)]
   \<and> (\<forall>x. GetEmbedding x \<notin> set (calls_made w (snd (query_selected_text sv q t w))))
   \<and> (\<forall>v l s. SearchVectors v l s \<notin> set (calls_made w (snd (query_selected_text sv q t w))))"
proof (cases "generate_content sv (selected_prompt t q)")
  case (Inl e)
  show ?thesis by (simp add: query_selected_text_raises [OF Inl] calls_made_def)
next
  case (Inr a)
  show ?thesis by (simp add: query_selected_text_answers [OF Inr] calls_made_def)
qed

text \<open>
  Claim C9. When the generation call returns, the response of \<^verbatim>\<open>query_selected_text\<close>
  carries the generated answer, the source tag \<^verbatim>\<open>User-selected text\<close>, the query, the
  number of characters of the selected text, the elapsed time and the model identifier.
  The instance below is the specification's scenario: 16 for \<^verbatim>\<open>The sky is blue.\<close>
\<close>

theorem selected_text_response:
  assumes "generate_content sv (selected_prompt t q) = Inr answer"
  shows "fst (query_selected_text sv q t w) =
           [(''answer'', VStr answer),
            (''source'', VStr ''User-selected text''),
            (''query'', VStr q),
            (''selected_text_length'', VInt (int (length t))),
            (''response_time'',
               VFloat (fsub sv (time_time sv (clock_reads w + 1)) (time_time sv (clock_reads w)))),
            (''model'', VStr (GEMINI_MODEL sv))]"
  by (simp add: query_selected_text_answers [OF assms])

theorem selected_text_response_witness:
  "generate_content example_services
     (selected_prompt ''The sky is blue.'' ''What color is the sky?'') =
     Inr ''A humanoid robot mimics human form.''
   \<and> fst (query_selected_text example_services ''What color is the sky?'' ''The sky is blue.''
          fresh_world) =
        [(''answer'', VStr ''A humanoid robot mimics human form.''),
         (''source'', VStr ''User-selected text''),
         (''query'', VStr ''What color is the sky?''),
         (''selected_text_length'', VInt 16),
         (''response_time'', VFloat 1),
         (''model'', VStr ''gemini-1.5-flash'')]"
proof -
  have g: "generate_content example_services
             (selected_prompt ''The sky is blue.'' ''What color is the sky?'') =
           Inr ''A humanoid robot mimics human form.''"
    by (simp add: example_services_def)
  show ?thesis
    using selected_text_response [OF g, of fresh_world] g
    by (simp add: example_services_def fresh_world_def)
qed

text \<open>
  Claim C10. On every path of both operations (answer, zero hits, a collaborator raising)
  the response has a \<^verbatim>\<open>query\<close> field equal to the input query and an \<^verbatim>\<open>answer\<close>
  field holding a string.
\<close>

theorem responses_echo_query:
  "field (fst (query_rag sv self q w)) ''query'' = Some (VStr q)
   \<and> (\<exists>a. field (fst (query_rag sv self q w)) ''answer'' = Some (VStr a))
   \<and> field (fst (query_selected_text sv q t w)) ''query'' = Some (VStr q)
   \<and> (\<exists>a. field (fst (query_selected_text sv q t w)) ''answer'' = Some (VStr a))"
proof -
  have rag: "field (fst (query_rag sv self q w)) ''query'' = Some (VStr q)
             \<and> (\<exists>a. field (fst (query_rag sv self q w)) ''answer'' = Some (VStr a))"
  proof (cases "get_embedding sv q")
    case (Inl e)
    show ?thesis
      by (simp add: query_rag_embedding_raises [OF Inl] rag_error_response_def field_def)
  next
    case emb: (Inr emb)
    show ?thesis
    proof (cases "search_vectors sv emb (max_results self) (similarity_threshold self)")
      case (Inl e)
      show ?thesis
        by (simp add: query_rag_search_raises [OF emb Inl] rag_error_response_def field_def)
    next
      case hits: (Inr hits)
      show ?thesis
      proof (cases "hits = []")
        case True
        with hits show ?thesis
          by (simp add: query_rag_no_hits [OF emb] field_def)
      next
        case False
        obtain chunks srcs where b: "build_context sv 0 hits ([], []) = (chunks, srcs)"
          by (cases "build_context sv 0 hits ([], [])") 
        show ?thesis
        proof (cases "generate_content sv (rag_prompt (join_str context_separator chunks) q)")
          case (Inl e)
          show ?thesis
            by (simp add: query_rag_generation_raises [OF emb hits False b Inl]
                rag_error_response_def field_def)
        next
          case (Inr a)
          show ?thesis
            by (simp add: query_rag_answers [OF emb hits False b Inr] field_def)
        qed
      qed
    qed
  qed
  have sel: "field (fst (query_selected_text sv q t w)) ''query'' = Some (VStr q)
             \<and> (\<exists>a. field (fst (query_selected_text sv q t w)) ''answer'' = Some (VStr a))"
  proof (cases "generate_content sv (selected_prompt t q)")
    case (Inl e)
    show ?thesis by (simp add: query_selected_text_raises [OF Inl] field_def)
  next
    case (Inr a)
    show ?thesis by (simp add: query_selected_text_answers [OF Inr] field_def)
  qed
  from rag sel show ?thesis by simp
qed

text \<open>
  Claim C3. For a non-empty search result, the context blocks \<^verbatim>\<open>query_rag\<close> builds are
  exactly the strings \<^verbatim>\<open>[Source: <filename>, Score: <score formatted with .3f>]\<close>, a
  newline, then the content, one for each hit that has a content, where the filename is
  \<^verbatim>\<open>chunk_<i>\<close> for a hit at position \<open>i\<close> of the search result whose payload has no
  filename; and the prompt handed to the generation call holds these blocks joined by two
  newlines, three dashes and two newlines.
\<close>

theorem context_block_format:
  assumes "get_embedding sv q = Inr emb"
    and "search_vectors sv emb (max_results self) (similarity_threshold self) = Inr hits"
    and "hits \<noteq> []"
  shows "fst (build_context sv 0 hits ([], [])) =
           map (\<lambda>(i, h). spec_block sv i h) (used_hits hits)
         \<and> calls (snd (query_rag sv self q w)) =
             calls w @
             [GetEmbedding q,
              SearchVectors emb (max_results self) (similarity_threshold self),
              GenerateContent
                (rag_prompt
                   (spec_join spec_separator (map (\<lambda>(i, h). spec_block sv i h) (used_hits hits)))
                   q)]"
proof -
  let ?chunks = "map (\<lambda>(i, h). spec_block sv i h) (used_hits hits)"
  let ?srcs = "map (\<lambda>(i, h). spec_filename i h) (used_hits hits)"
  have b: "build_context sv 0 hits ([], []) = (?chunks, ?srcs)"
    by (rule build_context_used_hits)
  have c: "calls (snd (query_rag sv self q w)) =
             calls w @
             [GetEmbedding q,
              SearchVectors emb (max_results self) (similarity_threshold self),
              GenerateContent (rag_prompt (join_str context_separator ?chunks) q)]"
  proof (cases "generate_content sv (rag_prompt (join_str context_separator ?chunks) q)")
    case (Inl e)
    show ?thesis by (simp add: query_rag_generation_raises [OF assms b Inl])
  next
    case (Inr a)
    show ?thesis by (simp add: query_rag_answers [OF assms b Inr])
  qed
  show ?thesis
    using b c by (simp add: join_str_spec_join context_separator_spec)
qed

theorem context_block_format_witness:
  "get_embedding example_services ''What is a humanoid robot?'' = Inr [0.1, 0.2]
   \<and> search_vectors example_services [0.1, 0.2] (max_results example_self)
        (similarity_threshold example_self) =
        Inr [hit_ch1, hit_unnamed, hit_no_content, hit_ch1_again]
   \<and> [hit_ch1, hit_unnamed, hit_no_content, hit_ch1_again] \<noteq> []
   \<and> fst (build_context example_services 0
             [hit_ch1, hit_unnamed, hit_no_content, hit_ch1_again] ([], [])) =
        [''[Source: ch1.pdf, Score: 0.850]'' @ [CHR 0x0A] @ ''A humanoid robot mimics human form.'',
         ''[Source: chunk_1, Score: 0.800]'' @ [CHR 0x0A] @ ''Actuators drive the joints.'',
         ''[Source: ch1.pdf, Score: 0.720]'' @ [CHR 0x0A] @ ''Humanoids walk on two legs.'']
   \<and> calls (snd (query_rag example_services example_self ''What is a humanoid robot?''
         fresh_world)) =
        [GetEmbedding ''What is a humanoid robot?'',
         SearchVectors [0.1, 0.2] 5 0.7,
         GenerateContent
           (rag_prompt
              (''[Source: ch1.pdf, Score: 0.850]'' @ [CHR 0x0A] @
               ''A humanoid robot mimics human form.'' @
               [CHR 0x0A, CHR 0x0A] @ ''---'' @ [CHR 0x0A, CHR 0x0A] @
               ''[Source: chunk_1, Score: 0.800]'' @ [CHR 0x0A] @
               ''Actuators drive the joints.'' @
               [CHR 0x0A, CHR 0x0A] @ ''---'' @ [CHR 0x0A, CHR 0x0A] @
               ''[Source: ch1.pdf, Score: 0.720]'' @ [CHR 0x0A] @
               ''Humanoids walk on two legs.'')
              ''What is a humanoid robot?'')]"
proof -
  let ?hits = "[hit_ch1, hit_unnamed, hit_no_content, hit_ch1_again]"
  have e: "get_embedding example_services ''What is a humanoid robot?'' = Inr [0.1, 0.2]"
    by (simp add: example_services_def)
  have s: "search_vectors example_services [0.1, 0.2] (max_results example_self)
             (similarity_threshold example_self) = Inr ?hits"
    by (simp add: example_services_def)
  have n: "?hits \<noteq> []" by simp
  have u: "used_hits ?hits = [(0, hit_ch1), (Suc 0, hit_unnamed), (3, hit_ch1_again)]"
    by (simp add: used_hits_def has_content_def hit_ch1_def hit_unnamed_def hit_no_content_def
        hit_ch1_again_def enumerate_eq_zip upt_rec)
  have b1: "spec_block example_services 0 hit_ch1 =
              ''[Source: ch1.pdf, Score: 0.850]'' @ [CHR 0x0A] @ ''A humanoid robot mimics human form.''"
    by (simp add: spec_block_def spec_filename_def spec_content_def hit_ch1_def
        example_services_def example_fmt3f_def str_nat.simps digit_char_def)
  have b2: "spec_block example_services (Suc 0) hit_unnamed =
              ''[Source: chunk_1, Score: 0.800]'' @ [CHR 0x0A] @ ''Actuators drive the joints.''"
    by (simp add: spec_block_def spec_filename_def spec_content_def hit_unnamed_def
        example_services_def example_fmt3f_def str_nat.simps digit_char_def)
  have b3: "spec_block example_services 3 hit_ch1_again =
              ''[Source: ch1.pdf, Score: 0.720]'' @ [CHR 0x0A] @ ''Humanoids walk on two legs.''"
    by (simp add: spec_block_def spec_filename_def spec_content_def hit_ch1_again_def
        example_services_def example_fmt3f_def str_nat.simps digit_char_def)
  have bl: "map (\<lambda>(i, h). spec_block example_services i h) (used_hits ?hits) =
        [''[Source: ch1.pdf, Score: 0.850]'' @ [CHR 0x0A] @ ''A humanoid robot mimics human form.'',
         ''[Source: chunk_1, Score: 0.800]'' @ [CHR 0x0A] @ ''Actuators drive the joints.'',
         ''[Source: ch1.pdf, Score: 0.720]'' @ [CHR 0x0A] @ ''Humanoids walk on two legs.'']"
    by (simp add: u b1 b2 b3)
  show ?thesis
    using context_block_format [OF e s n, of fresh_world] e s
    by (simp add: bl spec_join_def spec_separator_def example_self_def fresh_world_def
        del: build_context.simps)
qed

subsection \<open>The example search result\<close>

lemma example_used_hits:
  "used_hits [hit_ch1, hit_unnamed, hit_no_content, hit_ch1_again] =
     [(0, hit_ch1), (Suc 0, hit_unnamed), (3, hit_ch1_again)]"
  by (simp add: used_hits_def has_content_def hit_ch1_def hit_unnamed_def hit_no_content_def
      hit_ch1_again_def enumerate_eq_zip upt_rec)

lemma example_has_content:
  "filter has_content [hit_ch1, hit_unnamed, hit_no_content, hit_ch1_again] =
     [hit_ch1, hit_unnamed, hit_ch1_again]"
  by (simp add: has_content_def hit_ch1_def hit_unnamed_def hit_no_content_def hit_ch1_again_def)

lemma example_filenames:
  "map (\<lambda>(i, h). spec_filename i h) (used_hits [hit_ch1, hit_unnamed, hit_no_content, hit_ch1_again]) =
     [''ch1.pdf'', ''chunk_1'', ''ch1.pdf'']"
  unfolding example_used_hits
  by (simp add: spec_filename_def hit_ch1_def hit_unnamed_def hit_ch1_again_def
      str_nat.simps digit_char_def)

text \<open>
  Claim C4, as stated, fails: the loop guards each hit with \<^verbatim>\<open>if "content" in hit.payload\<close>.
  A search result of one hit whose payload has no content gives no context block and
  \<^verbatim>\<open>chunks_used\<close> 0, not 1.
\<close>

theorem hit_without_content_not_counted:
  "search_vectors services_one_hit_no_content [0.1, 0.2] (max_results example_self)
     (similarity_threshold example_self) = Inr [hit_no_content]
   \<and> fst (build_context services_one_hit_no_content 0 [hit_no_content] ([], [])) = []
   \<and> field (fst (query_rag services_one_hit_no_content example_self
               ''What is a humanoid robot?'' fresh_world)) ''chunks_used'' = Some (VInt 0)
   \<and> int (length [hit_no_content]) = 1"
proof -
  have e: "get_embedding services_one_hit_no_content ''What is a humanoid robot?'' =
             Inr [0.1, 0.2]"
    by (simp add: services_one_hit_no_content_def example_services_def)
  have s: "search_vectors services_one_hit_no_content [0.1, 0.2] (max_results example_self)
             (similarity_threshold example_self) = Inr [hit_no_content]"
    by (simp add: services_one_hit_no_content_def example_services_def)
  have b: "build_context services_one_hit_no_content 0 [hit_no_content] ([], []) = ([], [])"
    by (simp add: hit_no_content_def)
  have g: "generate_content services_one_hit_no_content
             (rag_prompt (join_str context_separator []) ''What is a humanoid robot?'') =
           Inr ''A humanoid robot mimics human form.''"
    by (simp add: services_one_hit_no_content_def example_services_def)
  have n: "[hit_no_content] \<noteq> []" by simp
  show ?thesis
    using s by (simp add: query_rag_answers [OF e s n b g] b field_def del: build_context.simps)
qed

text \<open>
  Claim C4, amended. For a non-empty search result, \<^verbatim>\<open>query_rag\<close> formats one context
  block for each hit whose payload has a content, in the order of the search result, and
  skips the others; \<^verbatim>\<open>chunks_used\<close> is the number of hits with a content, that is the
  number of hits returned less the number of hits without one.
\<close>

theorem blocks_follow_hits_with_content:
  assumes "get_embedding sv q = Inr emb"
    and "search_vectors sv emb (max_results self) (similarity_threshold self) = Inr hits"
    and "hits \<noteq> []"
    and "generate_content sv
           (rag_prompt (join_str context_separator (fst (build_context sv 0 hits ([], [])))) q) =
         Inr answer"
  shows "fst (build_context sv 0 hits ([], [])) =
           map (\<lambda>(i, h). spec_block sv i h) (used_hits hits)
         \<and> map snd (used_hits hits) = filter has_content hits
         \<and> field (fst (query_rag sv self q w)) ''chunks_used'' =
             Some (VInt (int (length (filter has_content hits))))
         \<and> length (filter has_content hits) +
             length (filter (\<lambda>h. payload h ''content'' = None) hits) = length hits"
proof -
  let ?chunks = "map (\<lambda>(i, h). spec_block sv i h) (used_hits hits)"
  let ?srcs = "map (\<lambda>(i, h). spec_filename i h) (used_hits hits)"
  have b: "build_context sv 0 hits ([], []) = (?chunks, ?srcs)"
    by (rule build_context_used_hits)
  have g: "generate_content sv (rag_prompt (join_str context_separator ?chunks) q) = Inr answer"
    using assms(4) by (simp add: b)
  have len: "length (used_hits hits) = length (filter has_content hits)"
    using map_snd_used_hits [of hits] by (metis length_map)
  have c: "field (fst (query_rag sv self q w)) ''chunks_used'' =
             Some (VInt (int (length (filter has_content hits))))"
    by (simp add: query_rag_answers [OF assms(1-3) b g] field_def len)
  have split: "length (filter has_content hits) +
                 length (filter (\<lambda>h. payload h ''content'' = None) hits) = length hits"
    using sum_length_filter_compl [of has_content hits] by (simp add: has_content_def)
  show ?thesis
    using b c split by (simp add: map_snd_used_hits)
qed

theorem blocks_follow_hits_with_content_witness:
  "get_embedding example_services ''What is a humanoid robot?'' = Inr [0.1, 0.2]
   \<and> search_vectors example_services [0.1, 0.2] (max_results example_self)
        (similarity_threshold example_self) =
        Inr [hit_ch1, hit_unnamed, hit_no_content, hit_ch1_again]
   \<and> map snd (used_hits [hit_ch1, hit_unnamed, hit_no_content, hit_ch1_again]) =
        [hit_ch1, hit_unnamed, hit_ch1_again]
   \<and> field (fst (query_rag example_services example_self ''What is a humanoid robot?''
                fresh_world)) ''chunks_used'' = Some (VInt 3)"
proof -
  let ?hits = "[hit_ch1, hit_unnamed, hit_no_content, hit_ch1_again]"
  have e: "get_embedding example_services ''What is a humanoid robot?'' = Inr [0.1, 0.2]"
    by (simp add: example_services_def)
  have s: "search_vectors example_services [0.1, 0.2] (max_results example_self)
             (similarity_threshold example_self) = Inr ?hits"
    by (simp add: example_services_def)
  have n: "?hits \<noteq> []" by simp
  have g: "generate_content example_services
             (rag_prompt (join_str context_separator
                (fst (build_context example_services 0 ?hits ([], []))))
                ''What is a humanoid robot?'') =
           Inr ''A humanoid robot mimics human form.''"
    by (simp add: example_services_def del: build_context.simps)
  show ?thesis
    using blocks_follow_hits_with_content [OF e s n g, of fresh_world, unfolded example_has_content]
      e s
    by (simp del: build_context.simps filter.simps)
qed

text \<open>
  Claim C5, as stated, fails: the dict returned on zero hits has five keys, with neither
  \<^verbatim>\<open>similarity_scores\<close> nor \<^verbatim>\<open>model\<close>.
\<close>

theorem zero_hit_response_lacks_fields:
  "fields (fst (query_rag services_no_hits example_self ''What is a humanoid robot?''
                  fresh_world)) =
     [''answer'', ''sources'', ''chunks_used'', ''query'', ''response_time'']
   \<and> field (fst (query_rag services_no_hits example_self ''What is a humanoid robot?''
                   fresh_world)) ''similarity_scores'' = None
   \<and> field (fst (query_rag services_no_hits example_self ''What is a humanoid robot?''
                   fresh_world)) ''model'' = None"
proof -
  have e: "get_embedding services_no_hits ''What is a humanoid robot?'' = Inr [0.1, 0.2]"
    by (simp add: services_no_hits_def example_services_def)
  have s: "search_vectors services_no_hits [0.1, 0.2] (max_results example_self)
             (similarity_threshold example_self) = Inr []"
    by (simp add: services_no_hits_def example_services_def)
  show ?thesis
    by (simp add: query_rag_no_hits [OF e s] fields_def field_def)
qed

text \<open>
  Claim C5, amended. Which fields a response of \<^verbatim>\<open>query_rag\<close> carries depends on the
  path: all seven fields when an answer is generated; \<^verbatim>\<open>answer\<close>, \<^verbatim>\<open>sources\<close>,
  \<^verbatim>\<open>chunks_used\<close>, \<^verbatim>\<open>query\<close> and \<^verbatim>\<open>response_time\<close> on zero hits; \<^verbatim>\<open>answer\<close>,
  \<^verbatim>\<open>sources\<close>, \<^verbatim>\<open>error\<close> and \<^verbatim>\<open>query\<close> when a collaborator raises.
\<close>

theorem response_fields_by_path:
  "fields (fst (query_rag sv self q w)) =
     (case get_embedding sv q of
        Inl e \<Rightarrow> [''answer'', ''sources'', ''error'', ''query'']
      | Inr emb \<Rightarrow>
          (case search_vectors sv emb (max_results self) (similarity_threshold self) of
             Inl e \<Rightarrow> [''answer'', ''sources'', ''error'', ''query'']
           | Inr hits \<Rightarrow>
               if hits = [] then
                 [''answer'', ''sources'', ''chunks_used'', ''query'', ''response_time'']
               else
                 (case generate_content sv
                         (rag_prompt
                            (join_str context_separator (fst (build_context sv 0 hits ([], []))))
                            q) of
                    Inl e \<Rightarrow> [''answer'', ''sources'', ''error'', ''query'']
                  | Inr answer \<Rightarrow>
                      [''answer'', ''sources'', ''chunks_used'', ''similarity_scores'',
                       ''query'', ''response_time'', ''model''])))"
proof (cases "get_embedding sv q")
  case (Inl e)
  show ?thesis
    by (simp add: query_rag_embedding_raises [OF Inl] Inl rag_error_response_def fields_def)
next
  case emb: (Inr emb)
  show ?thesis
  proof (cases "search_vectors sv emb (max_results self) (similarity_threshold self)")
    case (Inl e)
    show ?thesis
      by (simp add: query_rag_search_raises [OF emb Inl] emb Inl rag_error_response_def fields_def)
  next
    case hits: (Inr hits)
    show ?thesis
    proof (cases "hits = []")
      case True
      with hits have s: "search_vectors sv emb (max_results self) (similarity_threshold self) = Inr []"
        by simp
      show ?thesis
        by (simp add: query_rag_no_hits [OF emb s] emb s fields_def)
    next
      case False
      obtain chunks srcs where b: "build_context sv 0 hits ([], []) = (chunks, srcs)"
        by (cases "build_context sv 0 hits ([], [])")
      show ?thesis
      proof (cases "generate_content sv (rag_prompt (join_str context_separator chunks) q)")
        case (Inl e)
        show ?thesis
          by (simp add: query_rag_generation_raises [OF emb hits False b Inl] emb hits False b Inl
              rag_error_response_def fields_def)
      next
        case (Inr a)
        show ?thesis
          by (simp add: query_rag_answers [OF emb hits False b Inr] emb hits False b Inr fields_def)
      qed
    qed
  qed
qed

text \<open>
  Claim C2, as stated, fails for the selected-text mode: the dict its \<^verbatim>\<open>except\<close> branch
  returns has the keys \<^verbatim>\<open>answer\<close>, \<^verbatim>\<open>source\<close> and \<^verbatim>\<open>query\<close>, and no \<^verbatim>\<open>error\<close> field.
\<close>

theorem selected_text_failure_has_no_error_field:
  "generate_content services_generation_down
     (selected_prompt ''The sky is blue.'' ''What color is the sky?'') = Inl ''model overloaded''
   \<and> field (fst (query_selected_text services_generation_down ''What color is the sky?''
                   ''The sky is blue.'' fresh_world)) ''error'' = None"
proof -
  have g: "generate_content services_generation_down
             (selected_prompt ''The sky is blue.'' ''What color is the sky?'') =
           Inl ''model overloaded''"
    by (simp add: services_generation_down_def example_services_def)
  show ?thesis
    using g by (simp add: query_selected_text_raises [OF g] field_def)
qed

text \<open>
  Claim C2, amended. When the embedding call, the search or the generation call raises
  with message \<open>e\<close>, \<^verbatim>\<open>query_rag\<close> returns the dict with answer
  \<^verbatim>\<open>Error processing your query: <e>\<close>, empty sources, the \<^verbatim>\<open>error\<close> field \<open>e\<close> and the
  query. When the generation call raises, \<^verbatim>\<open>query_selected_text\<close> returns the dict with
  answer \<^verbatim>\<open>Error: <e>\<close>, source \<^verbatim>\<open>Error\<close> and the query, without an \<^verbatim>\<open>error\<close> field.
\<close>

theorem provider_failure_responses:
  "(get_embedding sv q = Inl e \<longrightarrow>
      fst (query_rag sv self q w) =
        [(''answer'', VStr (''Error processing your query: '' @ e)),
         (''sources'', VStrList []),
         (''error'', VStr e),
         (''query'', VStr q)])
   \<and> (get_embedding sv q = Inr emb
        \<and> search_vectors sv emb (max_results self) (similarity_threshold self) = Inl e \<longrightarrow>
      fst (query_rag sv self q w) =
        [(''answer'', VStr (''Error processing your query: '' @ e)),
         (''sources'', VStrList []),
         (''error'', VStr e),
         (''query'', VStr q)])
   \<and> (get_embedding sv q = Inr emb
        \<and> search_vectors sv emb (max_results self) (similarity_threshold self) = Inr hits
        \<and> hits \<noteq> []
        \<and> generate_content sv
             (rag_prompt (join_str context_separator (fst (build_context sv 0 hits ([], [])))) q) =
           Inl e \<longrightarrow>
      fst (query_rag sv self q w) =
        [(''answer'', VStr (''Error processing your query: '' @ e)),
         (''sources'', VStrList []),
         (''error'', VStr e),
         (''query'', VStr q)])
   \<and> (generate_content sv (selected_prompt t q) = Inl e \<longrightarrow>
      fst (query_selected_text sv q t w) =
        [(''answer'', VStr (''Error: '' @ e)),
         (''source'', VStr ''Error''),
         (''query'', VStr q)]
      \<and> field (fst (query_selected_text sv q t w)) ''error'' = None)"
proof (intro conjI impI)
  assume "get_embedding sv q = Inl e"
  then show "fst (query_rag sv self q w) =
        [(''answer'', VStr (''Error processing your query: '' @ e)),
         (''sources'', VStrList []),
         (''error'', VStr e),
         (''query'', VStr q)]"
    by (simp add: query_rag_embedding_raises rag_error_response_def)
next
  assume "get_embedding sv q = Inr emb
        \<and> search_vectors sv emb (max_results self) (similarity_threshold self) = Inl e"
  then show "fst (query_rag sv self q w) =
        [(''answer'', VStr (''Error processing your query: '' @ e)),
         (''sources'', VStrList []),
         (''error'', VStr e),
         (''query'', VStr q)]"
    by (simp add: query_rag_search_raises rag_error_response_def)
next
  assume a: "get_embedding sv q = Inr emb
        \<and> search_vectors sv emb (max_results self) (similarity_threshold self) = Inr hits
        \<and> hits \<noteq> []
        \<and> generate_content sv
             (rag_prompt (join_str context_separator (fst (build_context sv 0 hits ([], [])))) q) =
           Inl e"
  obtain chunks srcs where b: "build_context sv 0 hits ([], []) = (chunks, srcs)"
    by (cases "build_context sv 0 hits ([], [])")
  from a b have g: "generate_content sv (rag_prompt (join_str context_separator chunks) q) = Inl e"
    by simp
  from a have e: "get_embedding sv q = Inr emb"
    and s: "search_vectors sv emb (max_results self) (similarity_threshold self) = Inr hits"
    and n: "hits \<noteq> []"
    by simp_all
  show "fst (query_rag sv self q w) =
        [(''answer'', VStr (''Error processing your query: '' @ e)),
         (''sources'', VStrList []),
         (''error'', VStr e),
         (''query'', VStr q)]"
    by (simp add: query_rag_generation_raises [OF e s n b g] rag_error_response_def)
next
  assume g: "generate_content sv (selected_prompt t q) = Inl e"
  show "fst (query_selected_text sv q t w) =
        [(''answer'', VStr (''Error: '' @ e)),
         (''source'', VStr ''Error''),
         (''query'', VStr q)]"
    by (simp add: query_selected_text_raises [OF g])
next
  assume g: "generate_content sv (selected_prompt t q) = Inl e"
  show "field (fst (query_selected_text sv q t w)) ''error'' = None"
    by (simp add: query_selected_text_raises [OF g] field_def)
qed

theorem provider_failure_responses_witness:
  "get_embedding services_embedding_down ''What is a humanoid robot?'' =
     Inl ''embedding quota exceeded''
   \<and> fst (query_rag services_embedding_down example_self ''What is a humanoid robot?''
          fresh_world) =
        [(''answer'', VStr ''Error processing your query: embedding quota exceeded''),
         (''sources'', VStrList []),
         (''error'', VStr ''embedding quota exceeded''),
         (''query'', VStr ''What is a humanoid robot?'')]
   \<and> search_vectors services_search_down [0.1, 0.2] (max_results example_self)
        (similarity_threshold example_self) = Inl ''connection refused''
   \<and> fst (query_rag services_search_down example_self ''What is a humanoid robot?''
          fresh_world) =
        [(''answer'', VStr ''Error processing your query: connection refused''),
         (''sources'', VStrList []),
         (''error'', VStr ''connection refused''),
         (''query'', VStr ''What is a humanoid robot?'')]
   \<and> generate_content services_generation_down
        (rag_prompt
           (join_str context_separator
              (fst (build_context services_generation_down 0
                      [hit_ch1, hit_unnamed, hit_no_content, hit_ch1_again] ([], []))))
           ''What is a humanoid robot?'') = Inl ''model overloaded''
   \<and> fst (query_rag services_generation_down example_self ''What is a humanoid robot?''
          fresh_world) =
        [(''answer'', VStr ''Error processing your query: model overloaded''),
         (''sources'', VStrList []),
         (''error'', VStr ''model overloaded''),
         (''query'', VStr ''What is a humanoid robot?'')]
   \<and> generate_content services_generation_down
        (selected_prompt ''The sky is blue.'' ''What color is the sky?'') =
        Inl ''model overloaded''
   \<and> fst (query_selected_text services_generation_down ''What color is the sky?''
          ''The sky is blue.'' fresh_world) =
        [(''answer'', VStr ''Error: model overloaded''),
         (''source'', VStr ''Error''),
         (''query'', VStr ''What color is the sky?'')]"
proof -
  let ?q = "''What is a humanoid robot?''"
  let ?hits = "[hit_ch1, hit_unnamed, hit_no_content, hit_ch1_again]"
  have e1: "get_embedding services_embedding_down ?q = Inl ''embedding quota exceeded''"
    by (simp add: services_embedding_down_def example_services_def)
  have e2: "get_embedding services_search_down ?q = Inr [0.1, 0.2]"
    by (simp add: services_search_down_def example_services_def)
  have s2: "search_vectors services_search_down [0.1, 0.2] (max_results example_self)
              (similarity_threshold example_self) = Inl ''connection refused''"
    by (simp add: services_search_down_def example_services_def)
  have e3: "get_embedding services_generation_down ?q = Inr [0.1, 0.2]"
    by (simp add: services_generation_down_def example_services_def)
  have s3: "search_vectors services_generation_down [0.1, 0.2] (max_results example_self)
              (similarity_threshold example_self) = Inr ?hits"
    by (simp add: services_generation_down_def example_services_def)
  have g3: "generate_content services_generation_down
              (rag_prompt
                 (join_str context_separator
                    (fst (build_context services_generation_down 0 ?hits ([], [])))) ?q) =
            Inl ''model overloaded''"
    by (simp add: services_generation_down_def example_services_def del: build_context.simps)
  have g4: "generate_content services_generation_down
              (selected_prompt ''The sky is blue.'' ''What color is the sky?'') =
            Inl ''model overloaded''"
    by (simp add: services_generation_down_def example_services_def)
  note t1 = provider_failure_responses
              [of services_embedding_down ?q "''embedding quota exceeded''" example_self
                  fresh_world "[]" "[]" "[]"]
  note t2 = provider_failure_responses
              [of services_search_down ?q "''connection refused''" example_self
                  fresh_world "[0.1, 0.2]" "[]" "[]"]
  note t3 = provider_failure_responses
              [of services_generation_down ?q "''model overloaded''" example_self
                  fresh_world "[0.1, 0.2]" ?hits "[]"]
  note t4 = provider_failure_responses
              [of services_generation_down "''What color is the sky?''" "''model overloaded''"
                  example_self fresh_world "[]" "[]" "''The sky is blue.''"]
  have r1: "fst (query_rag services_embedding_down example_self ?q fresh_world) =
        [(''answer'', VStr ''Error processing your query: embedding quota exceeded''),
         (''sources'', VStrList []),
         (''error'', VStr ''embedding quota exceeded''),
         (''query'', VStr ?q)]"
    using t1 e1 by simp
  have r2: "fst (query_rag services_search_down example_self ?q fresh_world) =
        [(''answer'', VStr ''Error processing your query: connection refused''),
         (''sources'', VStrList []),
         (''error'', VStr ''connection refused''),
         (''query'', VStr ?q)]"
    using t2 e2 s2 by simp
  have r3: "fst (query_rag services_generation_down example_self ?q fresh_world) =
        [(''answer'', VStr ''Error processing your query: model overloaded''),
         (''sources'', VStrList []),
         (''error'', VStr ''model overloaded''),
         (''query'', VStr ?q)]"
    using t3 e3 s3 g3 by (simp del: build_context.simps)
  have r4: "fst (query_selected_text services_generation_down ''What color is the sky?''
          ''The sky is blue.'' fresh_world) =
        [(''answer'', VStr ''Error: model overloaded''),
         (''source'', VStr ''Error''),
         (''query'', VStr ''What color is the sky?'')]"
    using t4 g4 by simp
  show ?thesis
    using e1 r1 s2 r2 g3 r3 g4 r4 by (simp del: build_context.simps)
qed

subsection \<open>Deduplication never lengthens a list\<close>

lemma list_of_set_ok_length:
  assumes "list_of_set_ok sv xs"
  shows "length (list_of_set sv xs) \<le> length xs"
proof -
  from assms have d: "distinct (list_of_set sv xs)" and s: "set (list_of_set sv xs) = set xs"
    by (simp_all add: list_of_set_ok_def)
  from d have "length (list_of_set sv xs) = card (set (list_of_set sv xs))"
    by (simp add: distinct_card)
  also have "\<dots> = card (set xs)" by (simp add: s)
  also have "\<dots> \<le> length xs" by (rule card_length)
  finally show ?thesis .
qed

text \<open>
  Claim C6. When the search returns at least one hit and the generation call returns,
  the response of \<^verbatim>\<open>query_rag\<close> carries the generated answer; as sources the filenames of
  the hits used, each once (\<^verbatim>\<open>list(set(...))\<close>, in the order the runtime picks); as
  \<^verbatim>\<open>chunks_used\<close> the number of blocks assembled into the context; as
  \<^verbatim>\<open>similarity_scores\<close> the score of every hit in hit order; the query; the time elapsed
  between the first and the fifth reading of the clock; and the configured model.
\<close>

theorem shaped_response:
  assumes "get_embedding sv q = Inr emb"
    and "search_vectors sv emb (max_results self) (similarity_threshold self) = Inr hits"
    and "hits \<noteq> []"
    and "generate_content sv
           (rag_prompt (join_str context_separator (fst (build_context sv 0 hits ([], [])))) q) =
         Inr answer"
    and "list_of_set_ok sv (snd (build_context sv 0 hits ([], [])))"
  shows "field (fst (query_rag sv self q w)) ''answer'' = Some (VStr answer)
         \<and> (\<exists>srcs. field (fst (query_rag sv self q w)) ''sources'' = Some (VStrList srcs)
                \<and> distinct srcs
                \<and> set srcs = set (map (\<lambda>(i, h). spec_filename i h) (used_hits hits)))
         \<and> field (fst (query_rag sv self q w)) ''chunks_used'' =
             Some (VInt (int (length (used_hits hits))))
         \<and> field (fst (query_rag sv self q w)) ''similarity_scores'' =
             Some (VFloatList (map score hits))
         \<and> field (fst (query_rag sv self q w)) ''query'' = Some (VStr q)
         \<and> field (fst (query_rag sv self q w)) ''response_time'' =
             Some (VFloat (fsub sv (time_time sv (clock_reads w + 4))
                                   (time_time sv (clock_reads w))))
         \<and> field (fst (query_rag sv self q w)) ''model'' = Some (VStr (GEMINI_MODEL sv))"
proof -
  let ?chunks = "map (\<lambda>(i, h). spec_block sv i h) (used_hits hits)"
  let ?srcs = "map (\<lambda>(i, h). spec_filename i h) (used_hits hits)"
  have b: "build_context sv 0 hits ([], []) = (?chunks, ?srcs)"
    by (rule build_context_used_hits)
  have g: "generate_content sv (rag_prompt (join_str context_separator ?chunks) q) = Inr answer"
    using assms(4) by (simp add: b)
  have ok: "distinct (list_of_set sv ?srcs)" "set (list_of_set sv ?srcs) = set ?srcs"
    using assms(5) by (simp_all add: b list_of_set_ok_def)
  note r = query_rag_answers [OF assms(1-3) b g]
  have src: "\<exists>srcs. field (fst (query_rag sv self q w)) ''sources'' = Some (VStrList srcs)
                \<and> distinct srcs \<and> set srcs = set ?srcs"
  proof (intro exI conjI)
    show "field (fst (query_rag sv self q w)) ''sources'' = Some (VStrList (list_of_set sv ?srcs))"
      by (simp add: r field_def)
    show "distinct (list_of_set sv ?srcs)" by (rule ok(1))
    show "set (list_of_set sv ?srcs) = set ?srcs" by (rule ok(2))
  qed
  have rest: "field (fst (query_rag sv self q w)) ''answer'' = Some (VStr answer)"
    "field (fst (query_rag sv self q w)) ''chunks_used'' =
       Some (VInt (int (length (used_hits hits))))"
    "field (fst (query_rag sv self q w)) ''similarity_scores'' =
       Some (VFloatList (map score hits))"
    "field (fst (query_rag sv self q w)) ''query'' = Some (VStr q)"
    "field (fst (query_rag sv self q w)) ''response_time'' =
       Some (VFloat (fsub sv (time_time sv (clock_reads w + 4)) (time_time sv (clock_reads w))))"
    "field (fst (query_rag sv self q w)) ''model'' = Some (VStr (GEMINI_MODEL sv))"
    by (simp_all add: r field_def)
  from src rest show ?thesis by blast
qed

theorem shaped_response_witness:
  "get_embedding example_services ''What is a humanoid robot?'' = Inr [0.1, 0.2]
   \<and> search_vectors example_services [0.1, 0.2] (max_results example_self)
        (similarity_threshold example_self) =
        Inr [hit_ch1, hit_unnamed, hit_no_content, hit_ch1_again]
   \<and> list_of_set_ok example_services [''ch1.pdf'', ''chunk_1'', ''ch1.pdf'']
   \<and> field (fst (query_rag example_services example_self ''What is a humanoid robot?''
                fresh_world)) ''answer'' = Some (VStr ''A humanoid robot mimics human form.'')
   \<and> (\<exists>srcs. field (fst (query_rag example_services example_self
                  ''What is a humanoid robot?'' fresh_world)) ''sources'' = Some (VStrList srcs)
          \<and> distinct srcs \<and> set srcs = {''ch1.pdf'', ''chunk_1''})
   \<and> field (fst (query_rag example_services example_self ''What is a humanoid robot?''
                fresh_world)) ''chunks_used'' = Some (VInt 3)
   \<and> field (fst (query_rag example_services example_self ''What is a humanoid robot?''
                fresh_world)) ''similarity_scores'' = Some (VFloatList [0.85, 0.8, 0.75, 0.72])
   \<and> field (fst (query_rag example_services example_self ''What is a humanoid robot?''
                fresh_world)) ''query'' = Some (VStr ''What is a humanoid robot?'')
   \<and> field (fst (query_rag example_services example_self ''What is a humanoid robot?''
                fresh_world)) ''response_time'' = Some (VFloat 4)
   \<and> field (fst (query_rag example_services example_self ''What is a humanoid robot?''
                fresh_world)) ''model'' = Some (VStr ''gemini-1.5-flash'')"
proof -
  let ?hits = "[hit_ch1, hit_unnamed, hit_no_content, hit_ch1_again]"
  have e: "get_embedding example_services ''What is a humanoid robot?'' = Inr [0.1, 0.2]"
    by (simp add: example_services_def)
  have s: "search_vectors example_services [0.1, 0.2] (max_results example_self)
             (similarity_threshold example_self) = Inr ?hits"
    by (simp add: example_services_def)
  have n: "?hits \<noteq> []" by simp
  have g: "generate_content example_services
             (rag_prompt (join_str context_separator
                (fst (build_context example_services 0 ?hits ([], []))))
                ''What is a humanoid robot?'') =
           Inr ''A humanoid robot mimics human form.''"
    by (simp add: example_services_def del: build_context.simps)
  have ok0: "list_of_set_ok example_services [''ch1.pdf'', ''chunk_1'', ''ch1.pdf'']"
    by (auto simp add: list_of_set_ok_def example_services_def)
  have ok: "list_of_set_ok example_services (snd (build_context example_services 0 ?hits ([], [])))"
    using ok0 by (simp only: build_context_used_hits snd_conv example_filenames)
  have sc: "map score ?hits = [0.85, 0.8, 0.75, 0.72]"
    by (simp add: hit_ch1_def hit_unnamed_def hit_no_content_def hit_ch1_again_def)
  have misc: "clock_reads fresh_world = 0" "GEMINI_MODEL example_services = ''gemini-1.5-flash''"
    "fsub example_services (time_time example_services 4) (time_time example_services 0) = 4"
    by (simp_all add: fresh_world_def example_services_def)
  have fs: "set (map (\<lambda>(i, h). spec_filename i h) (used_hits ?hits)) = {''ch1.pdf'', ''chunk_1''}"
    unfolding example_filenames by auto
  note t = shaped_response [OF e s n g ok, of fresh_world, unfolded fs,
      unfolded example_used_hits sc]
  show ?thesis
    using t e s ok0 by (simp add: misc del: build_context.simps) 
qed

text \<open>
  Claim C7. On the same path, the source list is no longer than the list of similarity
  scores, and \<^verbatim>\<open>chunks_used\<close> is the number of context blocks, one per hit used, that are
  joined into the prompt of the generation call.
\<close>

theorem sources_no_longer_than_scores:
  assumes "get_embedding sv q = Inr emb"
    and "search_vectors sv emb (max_results self) (similarity_threshold self) = Inr hits"
    and "hits \<noteq> []"
    and "generate_content sv
           (rag_prompt (join_str context_separator (fst (build_context sv 0 hits ([], [])))) q) =
         Inr answer"
    and "list_of_set_ok sv (snd (build_context sv 0 hits ([], [])))"
  shows "\<exists>srcs scs.
           field (fst (query_rag sv self q w)) ''sources'' = Some (VStrList srcs)
           \<and> field (fst (query_rag sv self q w)) ''similarity_scores'' = Some (VFloatList scs)
           \<and> length srcs \<le> length scs
           \<and> field (fst (query_rag sv self q w)) ''chunks_used'' =
               Some (VInt (int (length (fst (build_context sv 0 hits ([], []))))))
           \<and> length (fst (build_context sv 0 hits ([], []))) = length (used_hits hits)
           \<and> last (calls (snd (query_rag sv self q w))) =
               GenerateContent
                 (rag_prompt
                    (join_str context_separator (fst (build_context sv 0 hits ([], [])))) q)"
proof -
  obtain chunks srcs where b: "build_context sv 0 hits ([], []) = (chunks, srcs)"
    by (cases "build_context sv 0 hits ([], [])")
  have g: "generate_content sv (rag_prompt (join_str context_separator chunks) q) = Inr answer"
    using assms(4) by (simp add: b)
  have ok: "list_of_set_ok sv srcs"
    using assms(5) by (simp add: b)
  note r = query_rag_answers [OF assms(1-3) b g]
  have u: "chunks = map (\<lambda>(i, h). spec_block sv i h) (used_hits hits)"
    and v: "srcs = map (\<lambda>(i, h). spec_filename i h) (used_hits hits)"
    using b by (simp_all add: build_context_used_hits)
  have "length (list_of_set sv srcs) \<le> length srcs"
    using ok by (rule list_of_set_ok_length)
  also have "\<dots> = length (used_hits hits)" by (simp add: v)
  also have "\<dots> \<le> length hits" by (rule length_used_hits)
  finally have le: "length (list_of_set sv srcs) \<le> length (map score hits)" by simp
  have f1: "field (fst (query_rag sv self q w)) ''sources'' = Some (VStrList (list_of_set sv srcs))"
    by (simp add: r field_def)
  have f2: "field (fst (query_rag sv self q w)) ''similarity_scores'' =
              Some (VFloatList (map score hits))"
    by (simp add: r field_def)
  have f3: "field (fst (query_rag sv self q w)) ''chunks_used'' =
              Some (VInt (int (length (fst (build_context sv 0 hits ([], []))))))"
    by (simp add: r field_def b)
  have f4: "length (fst (build_context sv 0 hits ([], []))) = length (used_hits hits)"
    by (simp add: b u)
  have f5: "last (calls (snd (query_rag sv self q w))) =
              GenerateContent
                (rag_prompt (join_str context_separator (fst (build_context sv 0 hits ([], [])))) q)"
    by (simp add: r b)
  from f1 f2 le f3 f4 f5 show ?thesis by blast
qed

theorem sources_no_longer_than_scores_witness:
  "get_embedding example_services ''What is a humanoid robot?'' = Inr [0.1, 0.2]
   \<and> search_vectors example_services [0.1, 0.2] (max_results example_self)
        (similarity_threshold example_self) =
        Inr [hit_ch1, hit_unnamed, hit_no_content, hit_ch1_again]
   \<and> list_of_set_ok example_services [''ch1.pdf'', ''chunk_1'', ''ch1.pdf'']
   \<and> (\<exists>srcs scs.
         field (fst (query_rag example_services example_self ''What is a humanoid robot?''
                  fresh_world)) ''sources'' = Some (VStrList srcs)
         \<and> field (fst (query_rag example_services example_self ''What is a humanoid robot?''
                  fresh_world)) ''similarity_scores'' = Some (VFloatList scs)
         \<and> length srcs \<le> length scs)
   \<and> field (fst (query_rag example_services example_self ''What is a humanoid robot?''
                fresh_world)) ''sources'' = Some (VStrList [''chunk_1'', ''ch1.pdf''])
   \<and> field (fst (query_rag example_services example_self ''What is a humanoid robot?''
                fresh_world)) ''similarity_scores'' = Some (VFloatList [0.85, 0.8, 0.75, 0.72])"
proof -
  let ?hits = "[hit_ch1, hit_unnamed, hit_no_content, hit_ch1_again]"
  let ?r = "fst (query_rag example_services example_self ''What is a humanoid robot?''
                fresh_world)"
  have e: "get_embedding example_services ''What is a humanoid robot?'' = Inr [0.1, 0.2]"
    by (simp add: example_services_def)
  have s: "search_vectors example_services [0.1, 0.2] (max_results example_self)
             (similarity_threshold example_self) = Inr ?hits"
    by (simp add: example_services_def)
  have n: "?hits \<noteq> []" by simp
  have g: "generate_content example_services
             (rag_prompt (join_str context_separator
                (fst (build_context example_services 0 ?hits ([], []))))
                ''What is a humanoid robot?'') =
           Inr ''A humanoid robot mimics human form.''"
    by (simp add: example_services_def del: build_context.simps)
  have ok0: "list_of_set_ok example_services [''ch1.pdf'', ''chunk_1'', ''ch1.pdf'']"
    by (auto simp add: list_of_set_ok_def example_services_def)
  have b: "build_context example_services 0 ?hits ([], []) =
             (map (\<lambda>(i, h). spec_block example_services i h) (used_hits ?hits),
              [''ch1.pdf'', ''chunk_1'', ''ch1.pdf''])"
    by (simp only: build_context_used_hits example_filenames)
  have ok: "list_of_set_ok example_services (snd (build_context example_services 0 ?hits ([], [])))"
    using ok0 by (simp only: b snd_conv)
  have g': "generate_content example_services
             (rag_prompt (join_str context_separator
                (map (\<lambda>(i, h). spec_block example_services i h) (used_hits ?hits)))
                ''What is a humanoid robot?'') =
           Inr ''A humanoid robot mimics human form.''"
    by (simp add: example_services_def)
  have ls: "list_of_set example_services [''ch1.pdf'', ''chunk_1'', ''ch1.pdf''] =
              [''chunk_1'', ''ch1.pdf'']"
    by (simp add: example_services_def)
  note r = query_rag_answers [OF e s n b g', of fresh_world]
  have f1: "field ?r ''sources'' = Some (VStrList [''chunk_1'', ''ch1.pdf''])"
    by (simp add: r field_def ls)
  have f2: "field ?r ''similarity_scores'' = Some (VFloatList [0.85, 0.8, 0.75, 0.72])"
    by (simp add: r field_def hit_ch1_def hit_unnamed_def hit_no_content_def hit_ch1_again_def)
  from sources_no_longer_than_scores [OF e s n g ok, of fresh_world]
  have ex: "\<exists>srcs scs. field ?r ''sources'' = Some (VStrList srcs)
         \<and> field ?r ''similarity_scores'' = Some (VFloatList scs)
         \<and> length srcs \<le> length scs"
    by blast
  from e s ok0 ex f1 f2 show ?thesis by blast
qed

end
